theory Spec2Isabelle
  imports Main "HOL-Library.Signed_Division"
begin

unbundle bit_operations_syntax

section \<open>The arena of mem.c\<close>

text \<open>
  The allocator of \<^verbatim>\<open>mem.c\<close> keeps its whole state in two globals, \<^verbatim>\<open>first_block\<close> and
  \<^verbatim>\<open>total_mem_size\<close>, in the static flag \<^verbatim>\<open>allocated_once\<close> of \<^verbatim>\<open>Mem_Init\<close>, and in the
  bytes of the region that \<^verbatim>\<open>mmap\<close> returned. Every access of the code to that region is
  through a \<^verbatim>\<open>block_tag *\<close>, that is, it reads or writes one \<^verbatim>\<open>int size_status\<close>.

  Pointers have 32 bits, as the casts \<^verbatim>\<open>(int)ptr\<close> of \<^verbatim>\<open>Mem_Free\<close> assume: an address is
  an integer from 0 to \<open>2^32 - 1\<close>, \<^verbatim>\<open>NULL\<close> is 0, and \<^verbatim>\<open>(int)ptr\<close> is \<open>to_int ptr\<close>, the
  \<^verbatim>\<open>int\<close> with the same 32 bits. The memory is a function from the address of a word to the
  \<^verbatim>\<open>int\<close> stored there. C's \<^verbatim>\<open>/\<close> and \<^verbatim>\<open>%\<close> truncate towards zero: they are \<open>sdiv\<close> and
  \<open>smod\<close>. The arithmetic on the stored words is that of the integers: an arena whose
  words stay far below \<open>2^31\<close> never overflows an \<^verbatim>\<open>int\<close>. The variable \<^verbatim>\<open>size\<close> of
  \<^verbatim>\<open>Mem_Alloc\<close> is \<open>sz\<close> here.
\<close>

record arena =
  mem :: "int \<Rightarrow> int"
  first_block :: int
  total_mem_size :: int
  allocated_once :: bool

text \<open>
  What C leaves undefined is a value of the model: an access outside the mapped region, an
  access through a \<^verbatim>\<open>block_tag *\<close> that is not aligned to 4 bytes, and a signed overflow
  of the requested size.
\<close>

datatype fault = OutOfBounds | Misaligned | Overflow

definition seq :: "fault + 'a \<Rightarrow> ('a \<Rightarrow> fault + 'b) \<Rightarrow> fault + 'b" where
  "seq m f = (case m of Inl e \<Rightarrow> Inl e | Inr v \<Rightarrow> f v)"

text \<open>\<^verbatim>\<open>p + k\<close> for a \<^verbatim>\<open>block_tag *p\<close>: the address moves by \<open>k\<close> times \<^verbatim>\<open>sizeof(block_tag)\<close>,
  which is 4.\<close>

definition padd :: "int \<Rightarrow> int \<Rightarrow> int" where
  "padd p k = p + 4 * k"

text \<open>\<^verbatim>\<open>p->size_status\<close> as a value.\<close>

definition load :: "arena \<Rightarrow> int \<Rightarrow> fault + int" where
  "load s p =
     (if p < first_block s \<or> first_block s + total_mem_size s < p + 4 then Inl OutOfBounds
      else if p mod 4 \<noteq> 0 then Inl Misaligned
      else Inr (mem s p))"

text \<open>\<^verbatim>\<open>p->size_status = v\<close>.\<close>

definition store :: "arena \<Rightarrow> int \<Rightarrow> int \<Rightarrow> fault + arena" where
  "store s p v =
     (if p < first_block s \<or> first_block s + total_mem_size s < p + 4 then Inl OutOfBounds
      else if p mod 4 \<noteq> 0 then Inl Misaligned
      else Inr (s\<lparr>mem := (mem s)(p := v)\<rparr>))"

section \<open>Mem\_Init\<close>

text \<open>
  The environment of \<^verbatim>\<open>Mem_Init\<close>: the page size, whether \<^verbatim>\<open>/dev/zero\<close> could be opened,
  and the address \<^verbatim>\<open>mmap\<close> returned (\<open>None\<close> for \<^verbatim>\<open>MAP_FAILED\<close>). The mapping is private and
  of \<^verbatim>\<open>/dev/zero\<close>, so every word of it is 0.
\<close>

record env =
  pagesize :: int
  dev_zero :: bool
  space_ptr :: "int option"

definition Mem_Init :: "env \<Rightarrow> int \<Rightarrow> arena \<Rightarrow> fault + int \<times> arena" where
  "Mem_Init e sizeOfRegion s =
     (if allocated_once s then Inr (- 1, s)
      else if sizeOfRegion \<le> 0 then Inr (- 1, s)
      else
        let padsize = sizeOfRegion smod pagesize e;
            padsize = (pagesize e - padsize) smod pagesize e;
            alloc_size = sizeOfRegion + padsize
        in if 2147483647 < alloc_size then Inl Overflow
           else if \<not> dev_zero e then Inr (- 1, s)
           else case space_ptr e of
             None \<Rightarrow> Inr (- 1, s\<lparr>allocated_once := False\<rparr>)
           | Some p \<Rightarrow>
               let s0 = s\<lparr>mem := (\<lambda>_. 0), first_block := p, total_mem_size := alloc_size,
                           allocated_once := True\<rparr>
               in seq (store s0 (first_block s0) alloc_size) (\<lambda>s1.
                  seq (load s1 (first_block s1)) (\<lambda>v.
                  seq (store s1 (first_block s1) (v + 2)) (\<lambda>s2.
                  seq (store s2 (first_block s2 + alloc_size - 4) alloc_size) (\<lambda>s3.
                  Inr (0, s3))))))"

section \<open>Mem\_Alloc\<close>

text \<open>Lines 78 to 87: the requested size is rounded up to a multiple of 4.\<close>

definition round_up :: "int \<Rightarrow> int" where
  "round_up sz =
     (if sz smod 4 = 1 then sz + 3
      else if sz smod 4 = 2 then sz + 2
      else if sz smod 4 = 3 then sz + 1
      else sz)"

text \<open>
  Lines 108 to 122, the step of the scan: what is added to \<^verbatim>\<open>current\<close> for a block whose
  header holds \<open>t_size\<close>. The code subtracts 3 from an odd header and 2 from an even one.
\<close>

definition scan_step :: "int \<Rightarrow> int" where
  "scan_step t_size = (if t_size AND 1 \<noteq> 0 then t_size - 3 else t_size - 2)"

text \<open>
  Line 117, the test that makes \<^verbatim>\<open>current\<close> the new \<^verbatim>\<open>best_slot\<close>; the headers are
  compared as they are stored, status bits included.
\<close>

definition better :: "arena \<Rightarrow> int \<Rightarrow> int \<Rightarrow> int option \<Rightarrow> fault + bool" where
  "better s sz current best_slot =
     seq (load s current) (\<lambda>v.
       if sz \<le> v then
         (case best_slot of
            None \<Rightarrow> Inr True
          | Some b \<Rightarrow> seq (load s b) (\<lambda>w. Inr (v < w)))
       else Inr False)"

text \<open>
  Lines 105 to 123, the loop. It ends when \<^verbatim>\<open>current\<close> is no longer below the end of the
  region; a header of a block of size 0 keeps it running for ever, which is the value
  \<open>None\<close>.
\<close>

partial_function (option) scan ::
  "arena \<Rightarrow> int \<Rightarrow> int option \<Rightarrow> int \<Rightarrow> (fault + int option) option" where
  "scan s sz best_slot current =
     (if current < first_block s + total_mem_size s then
        (case load s current of
           Inl e \<Rightarrow> Some (Inl e)
         | Inr t_size \<Rightarrow>
             if t_size AND 1 \<noteq> 0 then scan s sz best_slot (current + scan_step t_size)
             else (case better s sz current best_slot of
                     Inl e \<Rightarrow> Some (Inl e)
                   | Inr b \<Rightarrow>
                       scan s sz (if b then Some current else best_slot)
                         (current + scan_step t_size)))
      else Some (Inr best_slot))"

declare scan.simps [code]

text \<open>
  Lines 130 to 148: the chosen block is cut. \<^verbatim>\<open>header_size\<close> is 4, \<^verbatim>\<open>is_busy\<close> is 1 and
  \<^verbatim>\<open>prev_block_allocated\<close> is 2; \<^verbatim>\<open>best_slot + header_size\<close> is pointer arithmetic on a
  \<^verbatim>\<open>block_tag *\<close>.
\<close>

definition carve :: "arena \<Rightarrow> int \<Rightarrow> int \<Rightarrow> fault + int \<times> arena" where
  "carve s sz best_slot =
     seq (load s best_slot) (\<lambda>v.
       let preSplitSize = v - 2;
           newBlock = padd best_slot 4
       in seq (store s newBlock (sz + 1 + 2)) (\<lambda>s1.
          seq (load s1 newBlock) (\<lambda>w.
          seq (store s1 (padd newBlock (- 4)) w) (\<lambda>s2.
            let splitBlock = padd best_slot (sz sdiv 4)
            in seq (store s2 splitBlock ((preSplitSize - sz) + 2)) (\<lambda>s3.
               seq (load s3 splitBlock) (\<lambda>u.
                 let footer = padd splitBlock ((u - 2) sdiv 4 - 2 sdiv 4 - 1)
                 in seq (store s3 footer ((preSplitSize - sz) + 2)) (\<lambda>s4.
                    Inr (newBlock, s4))))))))"

text \<open>
  \<^verbatim>\<open>Mem_Alloc\<close>: \<open>None\<close> when the scan never ends, a fault, or the returned pointer (0 for
  \<^verbatim>\<open>NULL\<close>) with the arena after the call.
\<close>

definition Mem_Alloc :: "int \<Rightarrow> arena \<Rightarrow> (fault + int \<times> arena) option" where
  "Mem_Alloc sz s =
     (if sz \<le> 0 then Some (Inr (0, s))
      else if 2147483647 < round_up sz + 4 then Some (Inl Overflow)
      else
        (case scan s (round_up sz + 4) None (first_block s) of
           None \<Rightarrow> None
         | Some (Inl e) \<Rightarrow> Some (Inl e)
         | Some (Inr None) \<Rightarrow> Some (Inr (0, s))
         | Some (Inr (Some best_slot)) \<Rightarrow> Some (carve s (round_up sz + 4) best_slot)))"

section \<open>Mem\_Free\<close>

text \<open>\<^verbatim>\<open>(int)ptr\<close>: the value of the 32 bits of an address as a signed \<^verbatim>\<open>int\<close>.\<close>

definition to_int :: "int \<Rightarrow> int" where
  "to_int a = (a + 2147483648) mod 4294967296 - 2147483648"

text \<open>
  Line 171, the range test
  \<^verbatim>\<open>(int)ptr < (int)first_block || (int)ptr > (int)first_block + total_mem_size\<close>. The sum
  is a sum of two \<^verbatim>\<open>int\<close>s, computed only when the first comparison is false; when it does
  not fit an \<^verbatim>\<open>int\<close> the behaviour is undefined, which is the fault \<open>Overflow\<close>.
\<close>

definition out_of_range :: "arena \<Rightarrow> int \<Rightarrow> fault + bool" where
  "out_of_range s ptr =
     (if to_int ptr < to_int (first_block s) then Inr True
      else if to_int (first_block s) + total_mem_size s < - 2147483648
            \<or> 2147483647 < to_int (first_block s) + total_mem_size s then Inl Overflow
      else Inr (to_int ptr > to_int (first_block s) + total_mem_size s))"

text \<open>Lines 192 to 196: the next block is busy and the previous block is busy.\<close>

definition free_case1 :: "arena \<Rightarrow> int \<Rightarrow> fault + arena" where
  "free_case1 s coalescedBlock =
     seq (load s coalescedBlock) (\<lambda>a.
     seq (store s (padd coalescedBlock ((a - 2) sdiv 4 - 4)) a) (\<lambda>s1.
     seq (load s1 coalescedBlock) (\<lambda>b.
     seq (load s1 (padd coalescedBlock ((b - 2) sdiv 4))) (\<lambda>n.
     store s1 (padd coalescedBlock ((b - 2) sdiv 4)) (n - 2)))))"

text \<open>Lines 202 to 211: the next block is busy and the previous block is free.\<close>

definition free_case2 :: "arena \<Rightarrow> int \<Rightarrow> fault + arena" where
  "free_case2 s coalescedBlock =
     seq (load s coalescedBlock) (\<lambda>a.
       let footer = padd coalescedBlock (a sdiv 4 - 1)
       in seq (load s (padd coalescedBlock (- 4))) (\<lambda>p.
          seq (store s footer (a + p)) (\<lambda>s1.
          seq (load s1 (padd coalescedBlock (- 4))) (\<lambda>q.
            let coalescedBlock' = padd coalescedBlock (- (q sdiv 4))
            in seq (load s1 footer) (\<lambda>f.
               seq (store s1 coalescedBlock' f) (\<lambda>s2.
               seq (load s2 (padd footer 1)) (\<lambda>n.
               store s2 (padd footer 1) (n - 2))))))))"

text \<open>Lines 217 to 221: the next block is free and the previous block is busy.\<close>

definition free_case3 :: "arena \<Rightarrow> int \<Rightarrow> fault + arena" where
  "free_case3 s coalescedBlock =
     seq (load s coalescedBlock) (\<lambda>a.
     seq (load s (padd coalescedBlock ((a - 2) sdiv 4))) (\<lambda>n.
     seq (store s coalescedBlock (a + n - 2)) (\<lambda>s1.
     seq (load s1 coalescedBlock) (\<lambda>b.
     store s1 (padd coalescedBlock ((b - 2) sdiv 4 - 4)) b))))"

text \<open>Lines 227 to 240: the next block is free and the previous block is free.\<close>

definition free_case4 :: "arena \<Rightarrow> int \<Rightarrow> fault + arena" where
  "free_case4 s coalescedBlock =
     seq (load s coalescedBlock) (\<lambda>temp.
     seq (load s (padd coalescedBlock (temp sdiv 4))) (\<lambda>n.
     seq (store s coalescedBlock (n - 2)) (\<lambda>s1.
     seq (load s1 coalescedBlock) (\<lambda>temp2.
       let footer = padd coalescedBlock (temp2 sdiv 4 - 4)
       in seq (load s1 (padd coalescedBlock (- 4))) (\<lambda>p.
            let coalescedBlock' = padd coalescedBlock (- ((p - 2) sdiv 4))
            in seq (load s1 coalescedBlock') (\<lambda>c.
               seq (store s1 coalescedBlock' (c + temp + temp2)) (\<lambda>s2.
               seq (load s2 coalescedBlock') (\<lambda>d.
               store s2 footer d))))))))"

text \<open>
  \<^verbatim>\<open>Mem_Free\<close>: the three tests of lines 166 to 178, the header found 4 \<^verbatim>\<open>block_tag\<close>s
  before \<^verbatim>\<open>ptr\<close>, its status bit cleared by subtracting 1, and the chain of four tests, each
  of which reads the word it takes for the header of the next block before it looks at the
  header of the block itself. The result is the returned \<^verbatim>\<open>int\<close> and the arena.
\<close>

definition Mem_Free :: "int \<Rightarrow> arena \<Rightarrow> fault + int \<times> arena" where
  "Mem_Free ptr s =
     (if ptr = 0 then Inr (- 1, s)
      else seq (out_of_range s ptr) (\<lambda>outside.
      if outside then Inr (- 1, s)
      else if to_int ptr smod 4 \<noteq> 0 then Inr (- 1, s)
      else
        let coalescedBlock = padd ptr (- 4)
        in seq (load s coalescedBlock) (\<lambda>v.
           seq (store s coalescedBlock (v - 1)) (\<lambda>s1.
           seq (load s1 coalescedBlock) (\<lambda>st.
           seq (load s1 (padd coalescedBlock ((st - 2) sdiv 4))) (\<lambda>n1.
             if n1 AND 1 \<noteq> 0 \<and> st smod 4 \<noteq> 0
             then seq (free_case1 s1 coalescedBlock) (\<lambda>s2. Inr (0, s2))
             else
           seq (load s1 (padd coalescedBlock (st sdiv 4))) (\<lambda>n2.
             if n2 AND 1 \<noteq> 0 \<and> st smod 4 = 0
             then seq (free_case2 s1 coalescedBlock) (\<lambda>s2. Inr (0, s2))
             else
           seq (load s1 (padd coalescedBlock ((st - 2) sdiv 4))) (\<lambda>n3.
             if n3 smod 2 = 0 \<and> st smod 4 \<noteq> 0
             then seq (free_case3 s1 coalescedBlock) (\<lambda>s2. Inr (0, s2))
             else
           seq (load s1 (padd coalescedBlock (st sdiv 4))) (\<lambda>n4.
             if n4 smod 2 = 0 \<and> st smod 4 = 0
             then seq (free_case4 s1 coalescedBlock) (\<lambda>s2. Inr (0, s2))
             else Inr (0, s1))))))))))"

section \<open>Mem\_Dump\<close>

text \<open>
  One row of the listing: the status of the block, the status of the block before it, the
  address of its first byte and its size. \<^verbatim>\<open>t_End\<close> is \<open>t_begin + t_size - 1\<close>.
\<close>

datatype row = Row (busy: bool) (prev_busy: bool) (t_begin: int) (t_size: int)

text \<open>Lines 344 to 360: how the listing reads a header.\<close>

definition dump_row :: "int \<Rightarrow> int \<Rightarrow> row" where
  "dump_row current v =
     (let is_busy = (v AND 1 \<noteq> 0);
          t = (if is_busy then v - 1 else v);
          p = (t AND 2 \<noteq> 0);
          t = (if p then t - 2 else t)
      in Row is_busy p current t)"

partial_function (option) dump ::
  "arena \<Rightarrow> int \<Rightarrow> row list \<Rightarrow> (fault + row list) option" where
  "dump s current rows =
     (if current < first_block s + total_mem_size s then
        (case load s current of
           Inl e \<Rightarrow> Some (Inl e)
         | Inr v \<Rightarrow> dump s (current + t_size (dump_row current v)) (rows @ [dump_row current v]))
      else Some (Inr rows))"

declare dump.simps [code]

definition Mem_Dump :: "arena \<Rightarrow> (fault + row list) option" where
  "Mem_Dump s = dump s (first_block s) []"

text \<open>The three totals that \<^verbatim>\<open>Mem_Dump\<close> prints after the rows.\<close>

definition busy_size :: "row list \<Rightarrow> int" where
  "busy_size rows = sum_list (map t_size (filter busy rows))"

definition free_size :: "row list \<Rightarrow> int" where
  "free_size rows = sum_list (map t_size (filter (\<lambda>r. \<not> busy r) rows))"

definition total_size :: "row list \<Rightarrow> int" where
  "total_size rows = busy_size rows + free_size rows"

section \<open>Sequences of calls\<close>

text \<open>
  A program that uses the allocator is a sequence of calls. \<open>run\<close> performs them in order and
  collects what each call returned; it is \<open>None\<close> as soon as a call faults or does not
  return.
\<close>

datatype call = Alloc int | Free int

fun run :: "call list \<Rightarrow> arena \<Rightarrow> (int list \<times> arena) option" where
  "run [] s = Some ([], s)"
| "run (Alloc n # cs) s =
     (case Mem_Alloc n s of
        Some (Inr (p, s')) \<Rightarrow> map_option (\<lambda>(rs, t). (p # rs, t)) (run cs s')
      | _ \<Rightarrow> None)"
| "run (Free p # cs) s =
     (case Mem_Free p s of
        Inr (r, s') \<Rightarrow> map_option (\<lambda>(rs, t). (r # rs, t)) (run cs s')
      | Inl e \<Rightarrow> None)"

text \<open>What the calls returned, the arena they leave, and what \<^verbatim>\<open>Mem_Dump\<close> lists then.\<close>

definition returned :: "call list \<Rightarrow> arena \<Rightarrow> int list option" where
  "returned cs s = map_option fst (run cs s)"

definition after :: "call list \<Rightarrow> arena \<Rightarrow> arena" where
  "after cs s = (case run cs s of Some (rs, t) \<Rightarrow> t | None \<Rightarrow> s)"

definition listing :: "call list \<Rightarrow> arena \<Rightarrow> (fault + row list) option" where
  "listing cs s = Option.bind (run cs s) (\<lambda>(rs, t). Mem_Dump t)"

text \<open>
  A machine with pages of 4096 bytes on which \<^verbatim>\<open>mmap\<close> returns the address 4096000, the
  allocator before \<^verbatim>\<open>Mem_Init\<close>, and the arena that \<^verbatim>\<open>Mem_Init(4096)\<close> makes there.
\<close>

definition page_env :: env where
  "page_env = \<lparr>pagesize = 4096, dev_zero = True, space_ptr = Some 4096000\<rparr>"

definition fresh :: arena where
  "fresh = \<lparr>mem = (\<lambda>_. 0), first_block = 0, total_mem_size = 0, allocated_once = False\<rparr>"

definition arena0 :: arena where
  "arena0 = \<lparr>mem = (\<lambda>_. 0)(4096000 := 4098, 4100092 := 4096), first_block = 4096000,
     total_mem_size = 4096, allocated_once = True\<rparr>"

text \<open>
  The same machine when \<^verbatim>\<open>mmap\<close> returns the last page below \<open>2^31\<close>: the arena of
  \<^verbatim>\<open>Mem_Init(4096)\<close> then ends at 2147483648, the first address whose \<^verbatim>\<open>int\<close> is negative.
\<close>

definition high_env :: env where
  "high_env = \<lparr>pagesize = 4096, dev_zero = True, space_ptr = Some 2147479552\<rparr>"

definition arena_high :: arena where
  "arena_high = \<lparr>mem = (\<lambda>_. 0)(2147479552 := 4098, 2147483644 := 4096),
     first_block = 2147479552, total_mem_size = 4096, allocated_once = True\<rparr>"

text \<open>The addresses at which \<open>load\<close> and \<open>store\<close> do not fault.\<close>

definition valid :: "arena \<Rightarrow> int \<Rightarrow> bool" where
  "valid s p \<longleftrightarrow>
     first_block s \<le> p \<and> p + 4 \<le> first_block s + total_mem_size s \<and> p mod 4 = 0"

section \<open>Unfolding the model\<close>

lemma seq_simps: "seq (Inl e) f = Inl e" "seq (Inr v) f = f v"
  by (simp_all add: seq_def)

lemma seq_Inr: "seq m f = Inr y \<longleftrightarrow> (\<exists>v. m = Inr v \<and> f v = Inr y)"
  by (cases m) (simp_all add: seq_def)

lemma load_ok: "load s p = Inr v \<longleftrightarrow> valid s p \<and> v = mem s p"
  by (auto simp: load_def valid_def)

lemma store_ok: "store s p v = Inr s' \<longleftrightarrow> valid s p \<and> s' = s\<lparr>mem := (mem s)(p := v)\<rparr>"
  by (auto simp: store_def valid_def)

lemma load_valid: "valid s p \<Longrightarrow> load s p = Inr (mem s p)"
  by (simp add: load_ok)

lemma store_valid: "valid s p \<Longrightarrow> store s p v = Inr (s\<lparr>mem := (mem s)(p := v)\<rparr>)"
  by (simp add: store_ok)

lemma valid_upd: "valid (s\<lparr>mem := f\<rparr>) p = valid s p"
  by (simp add: valid_def)

lemma scan_end:
  "\<not> current < first_block s + total_mem_size s \<Longrightarrow> scan s sz b current = Some (Inr b)"
  by (subst scan.simps) simp

lemma scan_more:
  "current < first_block s + total_mem_size s \<Longrightarrow>
   scan s sz best_slot current =
     (case load s current of
        Inl e \<Rightarrow> Some (Inl e)
      | Inr t \<Rightarrow>
          if t AND 1 \<noteq> 0 then scan s sz best_slot (current + scan_step t)
          else (case better s sz current best_slot of
                  Inl e \<Rightarrow> Some (Inl e)
                | Inr b \<Rightarrow>
                    scan s sz (if b then Some current else best_slot)
                      (current + scan_step t)))"
  by (subst scan.simps) simp

lemma dump_end:
  "\<not> current < first_block s + total_mem_size s \<Longrightarrow> dump s current rows = Some (Inr rows)"
  by (subst dump.simps) simp

lemma dump_more:
  "current < first_block s + total_mem_size s \<Longrightarrow>
   dump s current rows =
     (case load s current of
        Inl e \<Rightarrow> Some (Inl e)
      | Inr v \<Rightarrow> dump s (current + t_size (dump_row current v)) (rows @ [dump_row current v]))"
  by (subst dump.simps) simp

text \<open>The rules that compute a sequence of calls on a given arena.\<close>

lemmas eval = seq_simps scan_end scan_more dump_end dump_more
  Mem_Alloc_def Mem_Free_def Mem_Dump_def Mem_Init_def round_up_def scan_step_def better_def
  carve_def free_case1_def free_case2_def free_case3_def free_case4_def out_of_range_def
  to_int_def
  load_def store_def padd_def dump_row_def Let_def signed_divide_int_def signed_modulo_int_def
  returned_def after_def listing_def total_size_def busy_size_def free_size_def
  page_env_def fresh_def arena0_def high_env_def arena_high_def

lemma Mem_Init_arena0: "Mem_Init page_env 4096 fresh = Inr (0, arena0)"
  by (simp add: eval)

lemma Mem_Dump_arena0: "Mem_Dump arena0 = Some (Inr [Row False True 4096000 4096])"
  by (simp add: eval)

section \<open>Arithmetic of C on multiples of 4\<close>

lemma sdiv4_exact: "(4 * k) sdiv 4 = (k::int)"
  by (cases "k < 0") (simp_all add: signed_divide_int_def sgn_if)

lemma sdiv4_diff: "(4 * a - 4 * b) sdiv 4 = (a - b::int)"
  using sdiv4_exact [of "a - b"] by (simp add: algebra_simps)

lemma sdiv4_mult: "4 dvd (x::int) \<Longrightarrow> 4 * (x sdiv 4) = x"
  by (auto simp: sdiv4_exact elim!: dvdE)

lemma sdiv4_plus2: "0 \<le> k \<Longrightarrow> (4 * k + 2) sdiv 4 = (k::int)"
  by (simp add: signed_divide_int_def sgn_if)

lemma sdiv4_2plus: "0 \<le> k \<Longrightarrow> (2 + 4 * k) sdiv 4 = (k::int)"
  by (simp add: signed_divide_int_def sgn_if)

lemma smod4_plus2: "0 \<le> k \<Longrightarrow> (4 * k + 2) smod 4 = (2::int)"
  by (simp add: signed_modulo_int_def sgn_if)

lemma smod4_2plus: "0 \<le> k \<Longrightarrow> (2 + 4 * k) smod 4 = (2::int)"
  by (simp add: signed_modulo_int_def sgn_if)

lemma smod2_plus2: "(4 * k + 2) smod 2 = (0::int)"
  by (simp add: signed_modulo_int_def)

lemma smod2_2plus: "(2 + 4 * k) smod 2 = (0::int)"
  by (simp add: signed_modulo_int_def)

lemma and1_4k2: "(4 * k + 2) AND 1 = (0::int)"
  by (simp add: and_one_eq)

lemma and1_2plus: "(2 + 4 * k) AND 1 = (0::int)"
  by (simp add: and_one_eq)

lemma smod4_dvd: "(a::int) mod 4 = 0 \<Longrightarrow> a smod 4 = 0"
  by (auto simp: signed_modulo_int_def sgn_if dvd_eq_mod_eq_0 [symmetric])

lemma smod4_pos: "0 < n \<Longrightarrow> n smod 4 = (n::int) mod 4"
  by (simp add: signed_modulo_int_def sgn_if)

lemma and1_plus2: "(x::int) mod 4 = 0 \<Longrightarrow> (x + 2) AND 1 = 0"
  by (simp add: and_one_eq) presburger

lemma and2_plus2: "(x::int) mod 4 = 0 \<Longrightarrow> (x + 2) AND 2 \<noteq> 0"
  using and_exp_eq_0_iff_not_bit [of "x + 2" 1]
  by (simp add: bit_iff_odd) presburger

lemma round_up_pos:
  assumes "0 < n"
  shows "round_up n = 4 * ((n + 3) div 4)"
proof -
  have "0 \<le> n mod 4" and "n mod 4 < 4"
    by simp_all
  then consider "n mod 4 = 0" | "n mod 4 = 1" | "n mod 4 = 2" | "n mod 4 = 3"
    by atomize_elim arith
  then show ?thesis
  proof cases
    case 1
    then show ?thesis using assms by (simp add: round_up_def smod4_pos) presburger
  next
    case 2
    then show ?thesis using assms by (simp add: round_up_def smod4_pos) presburger
  next
    case 3
    then show ?thesis using assms by (simp add: round_up_def smod4_pos) presburger
  next
    case 4
    then show ?thesis using assms by (simp add: round_up_def smod4_pos) presburger
  qed
qed

section \<open>The cast to int\<close>

lemma to_int_id: "0 \<le> a \<Longrightarrow> a \<le> 2147483647 \<Longrightarrow> to_int a = a"
  by (simp add: to_int_def)


section \<open>One free block: Mem\_Alloc and then Mem\_Free\<close>

lemma scan_single:
  assumes hd: "mem s (first_block s) = total_mem_size s + 2"
    and al: "total_mem_size s mod 4 = 0"
  shows "scan s sz None (first_block s) =
     (if 0 < total_mem_size s then
        (case load s (first_block s) of
           Inl e \<Rightarrow> Some (Inl e)
         | Inr v \<Rightarrow>
             Some (Inr (if sz \<le> total_mem_size s + 2 then Some (first_block s) else None)))
      else Some (Inr None))"
proof (cases "0 < total_mem_size s")
  case False
  then show ?thesis by (simp add: scan_end)
next
  case True
  show ?thesis
  proof (cases "load s (first_block s)")
    case (Inl e)
    then show ?thesis using True by (simp add: scan_more)
  next
    case (Inr v)
    then have v: "v = total_mem_size s + 2"
      using hd by (simp add: load_ok)
    have b: "better s sz (first_block s) None = Inr (sz \<le> total_mem_size s + 2)"
      using Inr v by (simp add: better_def seq_simps)
    have st: "scan_step (total_mem_size s + 2) = total_mem_size s"
      using al by (simp add: scan_step_def and1_plus2)
    show ?thesis
      using True Inr v b st al
      by (simp add: scan_more [of "first_block s"] and1_plus2 scan_end)
  qed
qed

lemma dump_single:
  assumes hd: "mem s (first_block s) = total_mem_size s + 2"
    and al: "total_mem_size s mod 4 = 0"
    and v: "valid s (first_block s)"
  shows "Mem_Dump s = Some (Inr [Row False True (first_block s) (total_mem_size s)])"
proof -
  have T: "0 < total_mem_size s"
    using v by (simp add: valid_def)
  have r: "dump_row (first_block s) (total_mem_size s + 2) =
      Row False True (first_block s) (total_mem_size s)"
    using al by (simp add: dump_row_def Let_def and1_plus2 and2_plus2)
  show ?thesis
    using T hd r v
    by (simp add: Mem_Dump_def dump_more [of "first_block s"] load_valid dump_end)
qed

lemma carve_single:
  assumes hd: "mem s (first_block s) = 4 * k + 4 * j + 2"
    and T: "total_mem_size s = 4 * k + 4 * j"
    and k: "2 \<le> k"
    and c: "carve s (4 * k) (first_block s) = Inr (p, s1)"
  shows "p = first_block s + 16 \<and> first_block s mod 4 = 0 \<and> 5 \<le> k + j \<and> 1 \<le> j \<and>
         s1 = s\<lparr>mem := (mem s)(first_block s + 16 := 4 * k + 3, first_block s := 4 * k + 3,
                     first_block s + 4 * k := 4 * j + 2,
                     first_block s + 4 * k + 4 * j - 4 := 4 * j + 2)\<rparr>"
  using c hd T k
  apply (simp add: carve_def seq_Inr load_ok store_ok valid_def padd_def Let_def sdiv4_exact
      sdiv4_diff signed_divide_int_def [of 2 4])
  apply (auto simp: algebra_simps)
  done

lemma free_single:
  assumes lo: "0 \<le> first_block s" and hi: "first_block s + total_mem_size s \<le> 2147483647"
    and fbal: "first_block s mod 4 = 0"
    and T: "total_mem_size s = 4 * k + 4 * j"
    and k: "2 \<le> k" "1 \<le> j" "5 \<le> k + j"
    and nz: "first_block s + 16 \<noteq> 0"
    and s1: "s1 = s\<lparr>mem := (mem s)(first_block s + 16 := 4 * k + 3, first_block s := 4 * k + 3,
                     first_block s + 4 * k := 4 * j + 2,
                     first_block s + 4 * k + 4 * j - 4 := 4 * j + 2)\<rparr>"
  shows "Mem_Free (first_block s + 16) s1 =
     Inr (0, s1\<lparr>mem := (mem s1)(first_block s := 4 * k + 4 * j + 2,
                   first_block s + 4 * k + 4 * j - 16 := 4 * k + 4 * j + 2)\<rparr>)"
proof -
  define cb where "cb = first_block s"
  have cbal: "cb mod 4 = 0"
    using fbal by (simp add: cb_def)
  have al: "(cb + 16) smod 4 = 0"
    using cbal by (intro smod4_dvd) presburger
  have al2: "(cb + 4 * k) mod 4 = 0" "(cb + 4 * k + 4 * j - 16) mod 4 = 0"
    using cbal by presburger+
  have V: "valid s cb" "valid s (cb + 4 * k)" "valid s (cb + 4 * k + 4 * j - 16)"
    using cbal al2 k by (simp_all add: valid_def T cb_def [symmetric])
  have fs: "first_block s1 = cb" "total_mem_size s1 = 4 * k + 4 * j"
    by (simp_all add: s1 T cb_def)
  have ti: "to_int cb = cb" "to_int (cb + 16) = cb + 16"
    using lo hi k T by (simp_all add: to_int_id cb_def)
  have oor: "out_of_range s1 (cb + 16) = Inr False"
    using lo hi k T by (simp add: out_of_range_def fs ti cb_def [symmetric])
  have "Mem_Free (cb + 16) s1 =
      Inr (0, s1\<lparr>mem := (mem s1)(cb := 4 * k + 4 * j + 2,
                    cb + 4 * k + 4 * j - 16 := 4 * k + 4 * j + 2)\<rparr>)"
    unfolding Mem_Free_def Let_def free_case3_def
    using nz al k cbal
    apply (simp add: oor ti seq_simps fs)
    apply (simp add: s1 cb_def [symmetric] padd_def load_valid store_valid valid_upd V seq_simps
        sdiv4_exact sdiv4_2plus sdiv4_plus2 smod4_plus2 smod4_2plus and1_4k2 and1_2plus
        smod2_2plus smod2_plus2)
    apply (auto simp: sdiv4_mult store_def seq_simps T cb_def [symmetric] algebra_simps)
    done
  then show ?thesis
    by (simp add: cb_def)
qed

text \<open>
  What the round trip does restore in an arena that lies below \<open>2^31\<close>: the listing and the
  first header. The last word of the arena is not part of the statement.
\<close>

lemma alloc_free_restores_listing:
  assumes lo: "0 \<le> first_block s" and hi: "first_block s + total_mem_size s \<le> 2147483647"
    and hd: "mem s (first_block s) = total_mem_size s + 2"
    and al: "total_mem_size s mod 4 = 0"
    and A: "Mem_Alloc n s = Some (Inr (p, s1))"
    and pn: "p \<noteq> 0"
  shows "\<exists>s2. Mem_Free p s1 = Inr (0, s2) \<and>
           Mem_Dump s = Some (Inr [Row False True (first_block s) (total_mem_size s)]) \<and>
           Mem_Dump s2 = Mem_Dump s \<and>
           mem s2 (first_block s2) = mem s (first_block s) \<and>
           first_block s2 = first_block s \<and> total_mem_size s2 = total_mem_size s"
proof -
  have npos: "0 < n"
    using A pn by (auto simp: Mem_Alloc_def split: if_splits)
  define k where "k = (n + 3) div 4 + 1"
  have sz: "round_up n + 4 = 4 * k"
    using npos by (simp add: round_up_pos k_def)
  have k2: "2 \<le> k"
    using npos unfolding k_def by presburger
  have c: "carve s (4 * k) (first_block s) = Inr (p, s1)"
    using A pn npos
    by (auto simp: Mem_Alloc_def sz scan_single [OF hd al] split: if_splits sum.splits)
  obtain m where m: "total_mem_size s = 4 * m"
    using al by (auto simp: mod_eq_0_iff_dvd elim: dvdE)
  define j where "j = m - k"
  have T: "total_mem_size s = 4 * k + 4 * j"
    by (simp add: m j_def)
  have hd': "mem s (first_block s) = 4 * k + 4 * j + 2"
    using hd T by simp
  note cs = carve_single [OF hd' T k2 c]
  have p: "p = first_block s + 16" and fbal: "first_block s mod 4 = 0"
    and kj: "5 \<le> k + j" and j1: "1 \<le> j"
    and s1: "s1 = s\<lparr>mem := (mem s)(first_block s + 16 := 4 * k + 3, first_block s := 4 * k + 3,
                     first_block s + 4 * k := 4 * j + 2,
                     first_block s + 4 * k + 4 * j - 4 := 4 * j + 2)\<rparr>"
    using cs by simp_all
  define s2 where "s2 = s1\<lparr>mem := (mem s1)(first_block s := 4 * k + 4 * j + 2,
                   first_block s + 4 * k + 4 * j - 16 := 4 * k + 4 * j + 2)\<rparr>"
  have F: "Mem_Free p s1 = Inr (0, s2)"
    unfolding p s2_def
    using pn by (intro free_single [OF lo hi fbal T k2 j1 kj _ s1]) (simp add: p)
  have reg: "first_block s2 = first_block s" "total_mem_size s2 = total_mem_size s"
    by (simp_all add: s2_def s1)
  have v: "valid s (first_block s)"
    using fbal kj T by (simp add: valid_def)
  have hd2: "mem s2 (first_block s2) = total_mem_size s2 + 2"
    using kj by (simp add: s2_def s1 T)
  have D: "Mem_Dump s = Some (Inr [Row False True (first_block s) (total_mem_size s)])"
    by (rule dump_single [OF hd al v])
  have D2: "Mem_Dump s2 = Some (Inr [Row False True (first_block s2) (total_mem_size s2)])"
    using al v by (intro dump_single [OF hd2]) (simp_all add: reg valid_def)
  show ?thesis
    using F D D2 reg hd hd2 by auto
qed

section \<open>What Mem\_Free returns\<close>

lemma free_case1_region:
  "free_case1 s c = Inr s' \<Longrightarrow>
    first_block s' = first_block s \<and> total_mem_size s' = total_mem_size s"
  by (auto simp: free_case1_def seq_Inr store_ok)

lemma free_case2_region:
  "free_case2 s c = Inr s' \<Longrightarrow>
    first_block s' = first_block s \<and> total_mem_size s' = total_mem_size s"
  by (auto simp: free_case2_def Let_def seq_Inr store_ok)

lemma free_case3_region:
  "free_case3 s c = Inr s' \<Longrightarrow>
    first_block s' = first_block s \<and> total_mem_size s' = total_mem_size s"
  by (auto simp: free_case3_def seq_Inr store_ok)

lemma free_case4_region:
  "free_case4 s c = Inr s' \<Longrightarrow>
    first_block s' = first_block s \<and> total_mem_size s' = total_mem_size s"
  by (auto simp: free_case4_def Let_def seq_Inr store_ok)

lemma out_of_range_region:
  "first_block s' = first_block s \<Longrightarrow> total_mem_size s' = total_mem_size s \<Longrightarrow>
   out_of_range s' ptr = out_of_range s ptr"
  by (simp add: out_of_range_def)

lemma Mem_Free_valid:
  assumes "ptr \<noteq> 0" and "out_of_range s ptr = Inr False" and "to_int ptr smod 4 = 0"
    and "Mem_Free ptr s = Inr (r, s')"
  shows "r = 0 \<and> first_block s' = first_block s \<and> total_mem_size s' = total_mem_size s"
proof -
  have "seq (Inr False) f = f False" for f :: "bool \<Rightarrow> fault + int \<times> arena"
    by (simp add: seq_simps)
  with assms show ?thesis
    by (auto simp: Mem_Free_def Let_def seq_Inr store_ok split: if_splits
        dest!: free_case1_region free_case2_region free_case3_region free_case4_region)
qed

lemma Mem_Free_result:
  assumes F: "Mem_Free ptr s = Inr (r, s')"
  shows "(r = - 1 \<and> s' = s \<and>
          (ptr = 0 \<or> out_of_range s ptr = Inr True \<or>
           (out_of_range s ptr = Inr False \<and> to_int ptr smod 4 \<noteq> 0))) \<or>
         (r = 0 \<and> ptr \<noteq> 0 \<and> out_of_range s ptr = Inr False \<and> to_int ptr smod 4 = 0 \<and>
          first_block s' = first_block s \<and> total_mem_size s' = total_mem_size s)"
proof (cases "ptr = 0")
  case True
  then show ?thesis using F by (simp add: Mem_Free_def)
next
  case nz: False
  show ?thesis
  proof (cases "out_of_range s ptr")
    case (Inl e)
    then show ?thesis using F nz by (simp add: Mem_Free_def seq_simps)
  next
    case (Inr outside)
    show ?thesis
    proof (cases outside)
      case True
      then show ?thesis using F nz Inr by (simp add: Mem_Free_def seq_simps)
    next
      case False
      show ?thesis
      proof (cases "to_int ptr smod 4 = 0")
        case True
        from Mem_Free_valid [OF nz _ True F] Inr False nz True show ?thesis
          by simp
      next
        case m: False
        then show ?thesis using F nz Inr False by (simp add: Mem_Free_def seq_simps)
      qed
    qed
  qed
qed

lemma Mem_Free_rejects:
  assumes "ptr = 0 \<or> out_of_range s ptr = Inr True \<or>
           (out_of_range s ptr = Inr False \<and> to_int ptr smod 4 \<noteq> 0)"
  shows "Mem_Free ptr s = Inr (- 1, s)"
proof (cases "ptr = 0")
  case True
  then show ?thesis by (simp add: Mem_Free_def)
next
  case False
  with assms consider "out_of_range s ptr = Inr True"
    | "out_of_range s ptr = Inr False" "to_int ptr smod 4 \<noteq> 0"
    by blast
  then show ?thesis
    using False by cases (simp_all add: Mem_Free_def seq_simps)
qed

section \<open>The claims\<close>

text \<open>
  The examples below all start from \<open>arena0\<close>, the arena of \<open>Mem_Init_arena0\<close>. The three
  blocks of \<^verbatim>\<open>Mem_Alloc(16)\<close>, \<^verbatim>\<open>Mem_Alloc(20)\<close> and \<^verbatim>\<open>Mem_Alloc(16)\<close> start at 4096000,
  4096020 and 4096044 and have 20, 24 and 20 bytes; the calls return 4096016, 4096036 and
  4096060.
\<close>

text \<open>
  C1, conservation: after every sequence of successful calls the sizes of the blocks that a
  traversal from the first byte finds add up to \<^verbatim>\<open>total_mem_size\<close>. The code does not keep
  it. Three blocks are allocated and freed in the order of their addresses, each call
  returning success. The second \<^verbatim>\<open>Mem_Free\<close> merges the first two blocks and puts the footer
  in the last word of the merged block; the third looks for that footer four words before
  its header, finds 0 there, and adds the sizes to its own header instead of the header of
  the block before. The listing then has a block of 8084 bytes in an arena of 4096, and
  the printed total is 8128.
\<close>

theorem conservation_lost_after_three_frees:
  "Mem_Init page_env 4096 fresh = Inr (0, arena0) \<and>
   returned [Alloc 16, Alloc 20, Alloc 16, Free 4096016, Free 4096036, Free 4096060] arena0 =
     Some [4096016, 4096036, 4096060, 0, 0, 0] \<and>
   listing [Alloc 16, Alloc 20, Alloc 16, Free 4096016, Free 4096036, Free 4096060] arena0 =
     Some (Inr [Row False True 4096000 44, Row False False 4096044 8084]) \<and>
   total_size [Row False True 4096000 44, Row False False 4096044 8084] = 8128 \<and>
   total_mem_size arena0 = 4096"
  by (simp add: eval)

text \<open>
  C2, no two adjacent free blocks after a successful \<^verbatim>\<open>Mem_Free\<close>. The code does not keep
  it. Three blocks of 8 bytes are allocated and the second is freed. Both neighbours are
  busy, so the block is to stand alone with a footer; the code writes that footer four
  words before the header of the next block, which is the header of the first block. The
  listing then shows the first block, which was never freed, as free, next to the freed
  block.
\<close>

theorem adjacent_free_blocks_after_free:
  "returned [Alloc 4, Alloc 4, Alloc 4, Free 4096024] arena0 =
     Some [4096016, 4096024, 4096032, 0] \<and>
   listing [Alloc 4, Alloc 4, Alloc 4] arena0 =
     Some (Inr [Row True True 4096000 8, Row True True 4096008 8, Row True True 4096016 8,
                Row False True 4096024 4072]) \<and>
   listing [Alloc 4, Alloc 4, Alloc 4, Free 4096024] arena0 =
     Some (Inr [Row False True 4096000 8, Row False True 4096008 8, Row True False 4096016 8,
                Row False True 4096024 4072])"
  by (simp add: eval)

text \<open>
  C3, best fit: among the free blocks of at least the needed size the smallest is chosen,
  the first of them in address order. The scan of \<^verbatim>\<open>Mem_Alloc\<close> does not reach every block.
  After the first of three blocks is freed the arena is consistent: a free block of 20
  bytes, a busy block of 24 bytes whose header says that the block before it is free, a
  busy block of 20 bytes and a free block of 4032 bytes. \<^verbatim>\<open>Mem_Alloc(24)\<close> needs 28 bytes,
  which only the last block has; the scan leaves the busy block of 24 bytes by 22 bytes,
  and reads a header at 4096042, where no block starts.
\<close>

theorem best_fit_scan_leaves_the_blocks:
  "returned [Alloc 16, Alloc 20, Alloc 16, Free 4096016] arena0 =
     Some [4096016, 4096036, 4096060, 0] \<and>
   listing [Alloc 16, Alloc 20, Alloc 16, Free 4096016] arena0 =
     Some (Inr [Row False True 4096000 20, Row True False 4096020 24, Row True True 4096044 20,
                Row False True 4096064 4032]) \<and>
   scan (after [Alloc 16, Alloc 20, Alloc 16, Free 4096016] arena0) 28 None 4096020 =
     scan (after [Alloc 16, Alloc 20, Alloc 16, Free 4096016] arena0) 28 None 4096042 \<and>
   Mem_Alloc 24 (after [Alloc 16, Alloc 20, Alloc 16, Free 4096016] arena0) =
     Some (Inl Misaligned)"
  by (simp add: eval)

text \<open>
  C4, round trip: from an arena that is one free block, \<^verbatim>\<open>Mem_Alloc\<close> and then \<^verbatim>\<open>Mem_Free\<close>
  of the returned pointer give back exactly the arena there was. The code gives back the
  listing but not the arena. After \<^verbatim>\<open>Mem_Alloc(24)\<close> and \<^verbatim>\<open>Mem_Free\<close> of its result on
  \<open>arena0\<close> both calls have succeeded and \<^verbatim>\<open>Mem_Dump\<close> lists the one free block of 4096
  bytes again, but the last word of the arena, where \<^verbatim>\<open>Mem_Init\<close> wrote the footer 4096,
  holds 4070: \<^verbatim>\<open>Mem_Alloc\<close> wrote the footer of the rest there, and \<^verbatim>\<open>Mem_Free\<close> wrote the
  footer of the merged block four words before the end. The two arenas are not
  interchangeable: the six calls of C1 all return on \<open>arena0\<close>, and on the arena after the
  round trip the sixth does not return a value.
\<close>

theorem round_trip_leaves_another_arena:
  "returned [Alloc 24, Free 4096016] arena0 = Some [4096016, 0] \<and>
   Mem_Dump arena0 = Some (Inr [Row False True 4096000 4096]) \<and>
   listing [Alloc 24, Free 4096016] arena0 = Some (Inr [Row False True 4096000 4096]) \<and>
   mem arena0 4100092 = 4096 \<and>
   mem (after [Alloc 24, Free 4096016] arena0) 4100092 = 4070 \<and>
   returned [Alloc 16, Alloc 20, Alloc 16, Free 4096016, Free 4096036, Free 4096060] arena0 =
     Some [4096016, 4096036, 4096060, 0, 0, 0] \<and>
   returned [Alloc 16, Alloc 20, Alloc 16, Free 4096016, Free 4096036]
     (after [Alloc 24, Free 4096016] arena0) = Some [4096016, 4096036, 4096060, 0, 0] \<and>
   run [Alloc 16, Alloc 20, Alloc 16, Free 4096016, Free 4096036, Free 4096060]
     (after [Alloc 24, Free 4096016] arena0) = None"
  by (simp add: eval)

text \<open>
  C5: the pointer that \<^verbatim>\<open>Mem_Alloc\<close> returns is the address of the payload, one header
  (4 bytes) after the start of the block. The code returns \<^verbatim>\<open>best_slot + header_size\<close>,
  where \<^verbatim>\<open>best_slot\<close> is a \<^verbatim>\<open>block_tag *\<close> and \<^verbatim>\<open>header_size\<close> is 4: the address 16 bytes
  after the start of the block. For \<^verbatim>\<open>Mem_Alloc(1)\<close> the block is the 8 bytes from 4096000
  and the payload starts at 4096004; the call returns 4096016, which lies in the next
  block.
\<close>

theorem returned_pointer_is_16_bytes_in:
  "returned [Alloc 1] arena0 = Some [4096016] \<and>
   listing [Alloc 1] arena0 =
     Some (Inr [Row True True 4096000 8, Row False True 4096008 4088])"
  by (simp add: eval)

text \<open>
  C6: a free block that exceeds the need by less than the smallest free block (8 bytes) is
  handed out whole, and \<^verbatim>\<open>Mem_Alloc\<close> splits only when the rest is at least that large. The
  code has no such test and always writes the header and the footer of a rest. With a rest
  of 4 bytes, \<^verbatim>\<open>Mem_Alloc(4088)\<close>, the listing shows a free block of 4 bytes. With no rest,
  \<^verbatim>\<open>Mem_Alloc(4092)\<close>, the header of the rest is written at the first byte after the arena.
\<close>

theorem always_split:
  "returned [Alloc 4088] arena0 = Some [4096016] \<and>
   listing [Alloc 4088] arena0 =
     Some (Inr [Row True True 4096000 4092, Row False True 4100092 4]) \<and>
   Mem_Alloc 4092 arena0 = Some (Inl OutOfBounds)"
  by (simp add: eval)

text \<open>
  C7: a step of the traversal advances by the size stored in the header, whatever the two
  status bits are. \<^verbatim>\<open>Mem_Dump\<close> does so. The scan of \<^verbatim>\<open>Mem_Alloc\<close> subtracts 3 from the
  header of a busy block and 2 from the header of a free block, which is the size only
  when the bit of the previous block is set. After the first of three blocks is freed the
  second has the header 25, a busy block of 24 bytes after a free block: \<^verbatim>\<open>Mem_Dump\<close>
  advances by 24 and the scan by 22.
\<close>

theorem scan_step_ignores_previous_bit:
  "mem (after [Alloc 16, Alloc 20, Alloc 16, Free 4096016] arena0) 4096020 = 25 \<and>
   scan_step 25 = 22 \<and>
   dump_row 4096020 25 = Row True False 4096020 24"
  by (simp add: eval)

text \<open>
  C8, as the specification states it: a second \<^verbatim>\<open>Mem_Free\<close> of the same pointer is rejected
  and leaves the arena as it is. In the code the second call returns 0 as the first did,
  and it changes the header of the block from 22 (free) to 21 (busy).
\<close>

theorem double_free_accepted:
  "returned [Alloc 16, Alloc 20, Alloc 16, Free 4096016, Free 4096016] arena0 =
     Some [4096016, 4096036, 4096060, 0, 0] \<and>
   mem (after [Alloc 16, Alloc 20, Alloc 16, Free 4096016] arena0) 4096000 = 22 \<and>
   mem (after [Alloc 16, Alloc 20, Alloc 16, Free 4096016, Free 4096016] arena0) 4096000 = 21"
  by (simp add: eval)

text \<open>
  C8, as the code has it: \<^verbatim>\<open>Mem_Free\<close> keeps no record of what is allocated. It rejects a
  pointer, returning -1 and leaving the arena unchanged, exactly when the pointer is
  \<^verbatim>\<open>NULL\<close>, or the range test of line 171 is true, or that test is false and \<^verbatim>\<open>(int)ptr\<close> is
  not a multiple of 4. A call that returns either was rejected in this way or returns 0;
  and after a call that returned 0, a second call with the same pointer is not rejected.
\<close>

theorem Mem_Free_keeps_no_record:
  "(Mem_Free ptr s = Inr (- 1, s) \<longleftrightarrow>
      ptr = 0 \<or> out_of_range s ptr = Inr True \<or>
      (out_of_range s ptr = Inr False \<and> to_int ptr smod 4 \<noteq> 0)) \<and>
   (Mem_Free ptr s = Inr (r, s1) \<longrightarrow>
      (r = - 1 \<and> s1 = s) \<or> (r = 0 \<and> (\<forall>s2. Mem_Free ptr s1 \<noteq> Inr (- 1, s2))))"
proof (intro conjI iffI impI)
  assume "Mem_Free ptr s = Inr (- 1, s)"
  from Mem_Free_result [OF this]
  show "ptr = 0 \<or> out_of_range s ptr = Inr True \<or>
      (out_of_range s ptr = Inr False \<and> to_int ptr smod 4 \<noteq> 0)"
    by simp
next
  assume "ptr = 0 \<or> out_of_range s ptr = Inr True \<or>
      (out_of_range s ptr = Inr False \<and> to_int ptr smod 4 \<noteq> 0)"
  then show "Mem_Free ptr s = Inr (- 1, s)"
    by (rule Mem_Free_rejects)
next
  assume F: "Mem_Free ptr s = Inr (r, s1)"
  note R = Mem_Free_result [OF F]
  show "(r = - 1 \<and> s1 = s) \<or> (r = 0 \<and> (\<forall>s2. Mem_Free ptr s1 \<noteq> Inr (- 1, s2)))"
  proof (cases "r = - 1")
    case True
    with R have "s1 = s" by simp
    with True show ?thesis by simp
  next
    case False
    with R have freed: "r = 0" "ptr \<noteq> 0" "out_of_range s ptr = Inr False"
      "to_int ptr smod 4 = 0"
      "first_block s1 = first_block s" "total_mem_size s1 = total_mem_size s"
      by simp_all
    have o: "out_of_range s1 ptr = Inr False"
      using out_of_range_region [OF freed(5,6), of ptr] freed(3) by simp
    have "Mem_Free ptr s1 \<noteq> Inr (- 1, s2)" for s2
    proof
      assume "Mem_Free ptr s1 = Inr (- 1, s2)"
      from Mem_Free_result [OF this] freed(2,4) o show False
        by simp
    qed
    with freed(1) show ?thesis by simp
  qed
qed

text \<open>
  C8 on \<open>arena0\<close>: the pointer one byte after the start of the arena is in range and not
  aligned, and is rejected; both calls of \<^verbatim>\<open>Mem_Free\<close> on the first of three allocated
  blocks pass the tests.
\<close>

theorem Mem_Free_keeps_no_record_witness:
  "Mem_Free 4096001 arena0 = Inr (- 1, arena0) \<and>
   out_of_range arena0 4096001 = Inr False \<and> to_int 4096001 smod 4 \<noteq> 0 \<and>
   Mem_Free 4096016 (after [Alloc 16, Alloc 20, Alloc 16] arena0) =
     Inr (0, after [Alloc 16, Alloc 20, Alloc 16, Free 4096016] arena0) \<and>
   (\<forall>s2. Mem_Free 4096016 (after [Alloc 16, Alloc 20, Alloc 16, Free 4096016] arena0)
      \<noteq> Inr (- 1, s2))"
proof -
  have m: "out_of_range arena0 4096001 = Inr False \<and> to_int 4096001 smod 4 \<noteq> 0"
    by (simp add: eval)
  have F: "Mem_Free 4096016 (after [Alloc 16, Alloc 20, Alloc 16] arena0) =
     Inr (0, after [Alloc 16, Alloc 20, Alloc 16, Free 4096016] arena0)"
    by (simp add: eval)
  show ?thesis
    using m F
      Mem_Free_keeps_no_record [of 4096001 arena0]
      Mem_Free_keeps_no_record [of 4096016 "after [Alloc 16, Alloc 20, Alloc 16] arena0" 0
        "after [Alloc 16, Alloc 20, Alloc 16, Free 4096016] arena0"]
    by simp
qed

text \<open>
  C9: the last word of every free block is a footer that holds the size of the block, and
  a \<^verbatim>\<open>Mem_Free\<close> that leaves a block free writes the footer there. After the first of three
  blocks is freed, it is a free block of 20 bytes from 4096000, whose last word is at
  4096016. \<^verbatim>\<open>Mem_Free\<close> wrote its footer four words before the next header, at 4096004, and
  wrote the header with its status bit, 22; the last word still holds 23. The footer that
  \<^verbatim>\<open>Mem_Alloc\<close> wrote for the free block of 4032 bytes at the end of the arena is in its last
  word, but holds 4034.
\<close>

theorem footer_not_in_last_word:
  "listing [Alloc 16, Alloc 20, Alloc 16, Free 4096016] arena0 =
     Some (Inr [Row False True 4096000 20, Row True False 4096020 24, Row True True 4096044 20,
                Row False True 4096064 4032]) \<and>
   map (mem (after [Alloc 16, Alloc 20, Alloc 16] arena0)) [4096000, 4096004, 4096016] =
     [23, 0, 23] \<and>
   map (mem (after [Alloc 16, Alloc 20, Alloc 16, Free 4096016] arena0))
     [4096000, 4096004, 4096016] = [22, 22, 23] \<and>
   mem (after [Alloc 16, Alloc 20, Alloc 16, Free 4096016] arena0) 4100092 = 4034"
  by (simp add: eval)




end
